theory Spec2Isabelle
  imports Complex_Main
begin

section \<open>Data model of climate\_model.py\<close>

text \<open>
  The screening model of \<^verbatim>\<open>climate_model.py\<close> is embedded function by function.
  Conventions of the embedding:
  \<^item> a Python \<^verbatim>\<open>float\<close> is a \<^typ>\<open>real\<close>: arithmetic is exact, so rounding, infinities
    and NaN are outside the model;
  \<^item> the floor count is a Python \<^verbatim>\<open>int\<close>, an unbounded \<^typ>\<open>int\<close>; its conversion to
    \<^verbatim>\<open>float\<close> raises \<^verbatim>\<open>OverflowError\<close> beyond the range of a double, and that raise
    is a branch of the model;
  \<^item> the \<^verbatim>\<open>Literal\<close> types \<^verbatim>\<open>SystemBoundary\<close> and \<^verbatim>\<open>StructuralSystem\<close> are datatypes;
  \<^item> a \<^verbatim>\<open>dict\<close> is an association list in insertion order (the keys of a dict are
    distinct; a list that repeats a key stands for no dict); a missing key read with
    \<^verbatim>\<open>d[k]\<close> is \<^verbatim>\<open>KeyError\<close>, a division by zero is \<^verbatim>\<open>ZeroDivisionError\<close>;
  \<^item> a Python string is a list of characters, one per code point; the letter a with
    diaeresis of the category and method names is the character \<open>0xE4\<close>;
  \<^item> the advisory strings are fixed literals of the source; each is one constructor
    of \<open>advisory\<close>.
\<close>

datatype SystemBoundary = B2022 | B2027

datatype StructuralSystem = Betong | Tra | Stal

datatype py_error = KeyError | ZeroDivisionError | OverflowError

datatype advisory =
    FormFactorNote      \<comment> \<open>"Formfaktor verkar ligga utanfor normalt intervall (0,2-1,5)."\<close>
  | WindowRatioNote     \<comment> \<open>"Fonsterandel bor ligga mellan 0 och 0,9."\<close>
  | FloorsNote          \<comment> \<open>"Antal vaningar maste vara minst 1."\<close>
  | ParkingRatioNote    \<comment> \<open>"Parkeringstal/garagefaktor bor normalt ligga mellan 0 och 2."\<close>
  | AtempNote           \<comment> \<open>"Atemp/BTA bor normalt ligga mellan 0,7 och 1,0."\<close>
  | ApplicabilityNote   \<comment> \<open>"Applicability for klimatforbattring maste ligga 0..1."\<close>
  | ImprovementSkippedNote
      \<comment> \<open>"Kunde inte applicera klimatforbattring (noll/negativt delbidrag)."\<close>

type_synonym 'k dict = "('k \<times> real) list"

record ModelConfig =
  median_kg_per_m2 :: "SystemBoundary dict"
  median_kg_per_m2_climate_improved :: "SystemBoundary dict"
  shares_2022 :: "string dict"
  shares_2027 :: "string dict"
  ref_form_factor :: real
  ref_window_ratio :: real
  window_to_wall_intensity_ratio :: real
  method_multiplier :: "string dict"
  structure_affected_share_2022 :: real
  structure_affected_share_2027 :: real
  garage_add_kg_per_m2_atemp_parking05 :: real
  timber_t_per_m2_default_by_system :: "StructuralSystem dict"
  basement_add_kg_per_m2_bta :: real

record ModelInputs =
  system_boundary :: SystemBoundary
  form_factor :: real
  window_ratio :: real
  floors :: int
  building_height_m :: "real option"
  structural_system :: StructuralSystem
  "method" :: string
  heavy_concrete_design :: bool
  climate_improved_materials :: bool
  climate_improved_applicability :: real
  basement :: bool
  underground_garage :: bool
  parking_ratio :: real
  atemp_to_bta :: real
  timber_t_per_m2_override :: "real option"

record ModelResult =
  total_kg_per_m2_bta :: real
  total_t_per_m2_bta :: real
  reference_kg_per_m2_bta :: real
  delta_vs_reference_kg :: real
  delta_vs_reference_percent :: real
  breakdown_kg_per_m2_bta :: "string dict"
  timber_t_per_m2_bta :: real
  "notes" :: "advisory list"

section \<open>Python primitives\<close>

definition bind_err :: "py_error + 'a \<Rightarrow> ('a \<Rightarrow> py_error + 'b) \<Rightarrow> py_error + 'b" where
  "bind_err m f = (case m of Inl e \<Rightarrow> Inl e | Inr x \<Rightarrow> f x)"

definition py_div :: "real \<Rightarrow> real \<Rightarrow> py_error + real" where
  "py_div a b = (if b = 0 then Inl ZeroDivisionError else Inr (a / b))"

text \<open>
  CPython converts an \<^verbatim>\<open>int\<close> to a double by rounding to 53 bits, half to even, and
  raises \<^verbatim>\<open>OverflowError\<close> when the rounded value is beyond the largest double: from
  \<open>2^1024 - 2^970\<close> on.
\<close>

definition float_int_limit :: int where
  "float_int_limit = 2 ^ 1024 - 2 ^ 970"

definition py_float :: "int \<Rightarrow> py_error + real" where
  "py_float n = (if \<bar>n\<bar> < float_int_limit then Inr (of_int n) else Inl OverflowError)"

definition dict_getitem :: "'k dict \<Rightarrow> 'k \<Rightarrow> py_error + real" where
  "dict_getitem d k = (case map_of d k of None \<Rightarrow> Inl KeyError | Some v \<Rightarrow> Inr v)"

definition dict_get :: "'k dict \<Rightarrow> 'k \<Rightarrow> real \<Rightarrow> real" where
  "dict_get d k dflt = (case map_of d k of None \<Rightarrow> dflt | Some v \<Rightarrow> v)"

definition dict_contains :: "'k dict \<Rightarrow> 'k \<Rightarrow> bool" where
  "dict_contains d k = (map_of d k \<noteq> None)"

text \<open>\<^verbatim>\<open>if k in d: d[k] = f(d[k])\<close>: the entry keeps its place, an absent key changes nothing.\<close>

definition dict_modify :: "'k dict \<Rightarrow> 'k \<Rightarrow> (real \<Rightarrow> real) \<Rightarrow> 'k dict" where
  "dict_modify d k f = map (\<lambda>(k', v). if k' = k then (k', f v) else (k', v)) d"

text \<open>\<^verbatim>\<open>d[k] = v\<close>: an existing entry keeps its place, a new key goes to the end.\<close>

fun dict_setitem :: "'k dict \<Rightarrow> 'k \<Rightarrow> real \<Rightarrow> 'k dict" where
  "dict_setitem [] k v = [(k, v)]"
| "dict_setitem ((k', v') # d) k v =
     (if k' = k then (k, v) # d else (k', v') # dict_setitem d k v)"

definition dict_values_sum :: "'k dict \<Rightarrow> real" where
  "dict_values_sum d = sum_list (map snd d)"

section \<open>Category and method names\<close>

definition Stomme :: string where
  "Stomme = ''Stomme''"

definition Grund :: string where
  "Grund = ''Grund''"

definition Klimatskarm :: string where
  "Klimatskarm = ''Klimatsk'' @ [CHR 0xE4] @ ''rm''"

definition Innervaggar :: string where
  "Innervaggar = ''Innerv'' @ [CHR 0xE4] @ ''ggar''"

definition Invandiga_ytskikt :: string where
  "Invandiga_ytskikt = ''Inv'' @ [CHR 0xE4] @ ''ndiga ytskikt & installationer''"

definition Prefabricerad_betong :: string where
  "Prefabricerad_betong = ''Prefabricerad betong''"

definition Platsgjuten_latta :: string where
  "Platsgjuten_latta =
     ''Platsgjuten betong (l'' @ [CHR 0xE4] @ ''tta utfackningsv'' @ [CHR 0xE4] @ ''ggar)''"

definition Platsgjuten_kvarsittande :: string where
  "Platsgjuten_kvarsittande = ''Platsgjuten betong (kvarsittande form)''"

definition Volymelement_i_tra :: string where
  "Volymelement_i_tra = ''Volymelement i tr'' @ [CHR 0xE4]"

definition KL_tra :: string where
  "KL_tra = ''KL-tr'' @ [CHR 0xE4] @ '' (massiv stomme)''"

section \<open>default\_config\<close>

definition default_config :: ModelConfig where
  "default_config =
     \<lparr> median_kg_per_m2 = [(B2022, 318), (B2027, 373)],
       median_kg_per_m2_climate_improved = [(B2022, 271), (B2027, 325)],
       shares_2022 =
         [(Stomme, 0.50), (Grund, 0.15), (Klimatskarm, 0.25), (Innervaggar, 0.10)],
       shares_2027 =
         [(Stomme, 0.45), (Grund, 0.15), (Klimatskarm, 0.20), (Innervaggar, 0.10),
          (Invandiga_ytskikt, 0.10)],
       ref_form_factor = 0.45,
       ref_window_ratio = 0.20,
       window_to_wall_intensity_ratio = 4,
       method_multiplier =
         [(Prefabricerad_betong, 1),
          (Platsgjuten_latta, 290 / 272),
          (Platsgjuten_kvarsittande, 331 / 272),
          (Volymelement_i_tra, 1),
          (KL_tra, 1)],
       structure_affected_share_2022 = 0.70,
       structure_affected_share_2027 = 0.65,
       garage_add_kg_per_m2_atemp_parking05 = 48,
       timber_t_per_m2_default_by_system = [(Betong, 0.005), (Tra, 0.060), (Stal, 0.002)],
       basement_add_kg_per_m2_bta = 25 \<rparr>"

section \<open>\_validate\_inputs\<close>

definition validate_inputs :: "ModelInputs \<Rightarrow> advisory list" where
  "validate_inputs inp =
     (if \<not> (0.2 \<le> form_factor inp \<and> form_factor inp \<le> 1.5) then [FormFactorNote] else [])
   @ (if \<not> (0 \<le> window_ratio inp \<and> window_ratio inp \<le> 0.9) then [WindowRatioNote] else [])
   @ (if floors inp < 1 then [FloorsNote] else [])
   @ (if \<not> (0 \<le> parking_ratio inp \<and> parking_ratio inp \<le> 2) then [ParkingRatioNote] else [])
   @ (if \<not> (0.7 \<le> atemp_to_bta inp \<and> atemp_to_bta inp \<le> 1) then [AtempNote] else [])
   @ (if climate_improved_applicability inp < 0 \<or> climate_improved_applicability inp > 1
      then [ApplicabilityNote] else [])"

section \<open>estimate, step by step\<close>

text \<open>Step 1: \<^verbatim>\<open>breakdown = {k: baseline * v for k, v in shares.items()}\<close>.\<close>

definition baseline_split :: "real \<Rightarrow> string dict \<Rightarrow> string dict" where
  "baseline_split baseline shares = map (\<lambda>(k, v). (k, baseline * v)) shares"

text \<open>
  Step 2, the floor-height factor. \<^verbatim>\<open>if inp.building_height_m and inp.floors > 0\<close> tests
  the truth value of an optional float: \<^verbatim>\<open>None\<close> and \<^verbatim>\<open>0.0\<close> are false, every other
  number is true.
\<close>

definition height_factor :: "ModelInputs \<Rightarrow> py_error + real" where
  "height_factor inp =
     (case building_height_m inp of
        None \<Rightarrow> Inr 1
      | Some h \<Rightarrow>
          if h \<noteq> 0 \<and> floors inp > 0 then
            bind_err (py_float (floors inp)) (\<lambda>fl.
              let ref_floor_height = 2.8;
                  floor_height = h / fl
              in Inr (max 0.8 (min 1.3 (floor_height / ref_floor_height))))
          else Inr 1)"

definition envelope_scaling ::
  "ModelConfig \<Rightarrow> ModelInputs \<Rightarrow> string dict \<Rightarrow> py_error + string dict" where
  "envelope_scaling cfg inp breakdown =
     (if dict_contains breakdown Klimatskarm then
        bind_err (py_div (form_factor inp) (ref_form_factor cfg)) (\<lambda>form_factor_scale.
        bind_err (height_factor inp) (\<lambda>hf.
          let r = window_to_wall_intensity_ratio cfg;
              w = window_ratio inp;
              w0 = ref_window_ratio cfg
          in bind_err (py_div (w * r + (1 - w) * 1) (w0 * r + (1 - w0) * 1))
               (\<lambda>window_mix_factor.
                  Inr (dict_modify breakdown Klimatskarm
                         (\<lambda>v. v * (form_factor_scale * hf * window_mix_factor))))))
      else Inr breakdown)"

text \<open>Step 3: \<^verbatim>\<open>0.05 * (4 - inp.floors)\<close> converts the integer \<^verbatim>\<open>4 - inp.floors\<close> to float.\<close>

definition lowrise_correction :: "ModelInputs \<Rightarrow> string dict \<Rightarrow> py_error + string dict" where
  "lowrise_correction inp breakdown =
     (if floors inp < 4 then
        bind_err (py_float (4 - floors inp)) (\<lambda>d.
          let lowrise_factor = 1 + 0.05 * d;
              b1 = dict_modify breakdown Grund (\<lambda>v. v * lowrise_factor);
              b2 = dict_modify b1 Klimatskarm (\<lambda>v. v * lowrise_factor)
          in Inr b2)
      else Inr breakdown)"

text \<open>Step 4.\<close>

definition method_mult :: "ModelConfig \<Rightarrow> ModelInputs \<Rightarrow> real" where
  "method_mult cfg inp = dict_get (method_multiplier cfg) (method inp) 1"

definition heavy_mult :: "ModelInputs \<Rightarrow> real" where
  "heavy_mult inp = (if heavy_concrete_design inp then 1.10 else 1)"

definition system_struct_mult :: "ModelInputs \<Rightarrow> real" where
  "system_struct_mult inp =
     (case structural_system inp of
        Tra \<Rightarrow> if system_boundary inp = B2022 then 0.47 else 0.51
      | Stal \<Rightarrow> 1.05
      | Betong \<Rightarrow> 1)"

definition structural_scaling :: "ModelConfig \<Rightarrow> ModelInputs \<Rightarrow> string dict \<Rightarrow> string dict" where
  "structural_scaling cfg inp breakdown =
     foldl (\<lambda>b key. dict_modify b key
                      (\<lambda>v. v * (method_mult cfg inp * heavy_mult inp * system_struct_mult inp)))
       breakdown [Stomme, Grund, Innervaggar]"

text \<open>Step 5.\<close>

definition garage_add :: "ModelConfig \<Rightarrow> ModelInputs \<Rightarrow> real" where
  "garage_add cfg inp =
     garage_add_kg_per_m2_atemp_parking05 cfg * atemp_to_bta inp * (parking_ratio inp / 0.5)"

definition below_grade :: "ModelConfig \<Rightarrow> ModelInputs \<Rightarrow> string dict \<Rightarrow> string dict" where
  "below_grade cfg inp breakdown =
     (let b1 = (if basement inp
                then dict_setitem breakdown Grund
                       (dict_get breakdown Grund 0 + basement_add_kg_per_m2_bta cfg)
                else breakdown);
          b2 = (if underground_garage inp
                then dict_setitem b1 Grund (dict_get b1 Grund 0 + garage_add cfg inp)
                else b1)
      in b2)"

text \<open>
  Step 6. \<^verbatim>\<open>affected_sum\<close> is computed once, before the loop; every key of the loop is
  visited once, so each category is reduced by its share of the sum before the loop.
  The division by \<^verbatim>\<open>affected_sum\<close> is under the guard \<^verbatim>\<open>affected_sum > 0\<close>.
\<close>

definition affected_keys :: "string list" where
  "affected_keys = [Stomme, Grund, Klimatskarm]"

definition affected_sum :: "string dict \<Rightarrow> real" where
  "affected_sum breakdown = sum_list (map (\<lambda>k. dict_get breakdown k 0) affected_keys)"

definition climate_improved ::
  "ModelConfig \<Rightarrow> ModelInputs \<Rightarrow> string dict \<Rightarrow> advisory list
     \<Rightarrow> py_error + (string dict \<times> advisory list)" where
  "climate_improved cfg inp breakdown nts =
     (if climate_improved_materials inp then
        bind_err (dict_getitem (median_kg_per_m2_climate_improved cfg) (system_boundary inp))
          (\<lambda>baseline_improved.
        bind_err (dict_getitem (median_kg_per_m2 cfg) (system_boundary inp))
          (\<lambda>baseline_generic.
          let diff = max 0 (baseline_generic - baseline_improved);
              asum = affected_sum breakdown;
              total_pre = dict_values_sum breakdown
          in if total_pre > 0 \<and> asum > 0 then
               bind_err (py_div total_pre baseline_generic) (\<lambda>scale.
                 let target_reduction = diff * scale * climate_improved_applicability inp
                 in Inr (foldl (\<lambda>b k. dict_modify b k
                                  (\<lambda>v. max 0 (v - target_reduction * (v / asum))))
                           breakdown affected_keys,
                         nts))
             else Inr (breakdown, nts @ [ImprovementSkippedNote])))
      else Inr (breakdown, nts))"

text \<open>Timber mass.\<close>

definition timber_mass :: "ModelConfig \<Rightarrow> ModelInputs \<Rightarrow> py_error + real" where
  "timber_mass cfg inp =
     (case timber_t_per_m2_override inp of
        Some t \<Rightarrow> Inr (max 0 t)
      | None \<Rightarrow> dict_getitem (timber_t_per_m2_default_by_system cfg) (structural_system inp))"

text \<open>The breakdown after step 5, before the climate-improved step.\<close>

definition breakdown_pre :: "ModelConfig \<Rightarrow> ModelInputs \<Rightarrow> py_error + string dict" where
  "breakdown_pre cfg inp =
     bind_err (dict_getitem (median_kg_per_m2 cfg) (system_boundary inp)) (\<lambda>baseline.
       let shares = (if system_boundary inp = B2022 then shares_2022 cfg else shares_2027 cfg);
           b1 = baseline_split baseline shares
       in bind_err (envelope_scaling cfg inp b1) (\<lambda>b2.
          bind_err (lowrise_correction inp b2) (\<lambda>b3.
            Inr (below_grade cfg inp (structural_scaling cfg inp b3)))))"

text \<open>Totals, reference comparison and the result record.\<close>

definition result_of :: "string dict \<Rightarrow> advisory list \<Rightarrow> real \<Rightarrow> ModelResult" where
  "result_of breakdown nts timber_t =
     (let total = dict_values_sum breakdown;
          ref = 375;
          delta = total - ref;
          delta_pct = (delta / ref) * 100
      in \<lparr> total_kg_per_m2_bta = total,
           total_t_per_m2_bta = total / 1000,
           reference_kg_per_m2_bta = ref,
           delta_vs_reference_kg = delta,
           delta_vs_reference_percent = delta_pct,
           breakdown_kg_per_m2_bta = breakdown,
           timber_t_per_m2_bta = timber_t,
           notes = nts \<rparr>)"

text \<open>
  \<^verbatim>\<open>cfg = cfg or default_config()\<close>: an instance of the dataclass is always true, so a
  configuration that is passed is the one used, and \<open>default_config\<close> stands for the
  omitted argument. The notes are those of \<open>validate_inputs\<close>, extended by step 6.
\<close>

definition estimate :: "ModelInputs \<Rightarrow> ModelConfig \<Rightarrow> py_error + ModelResult" where
  "estimate inp cfg =
     bind_err (breakdown_pre cfg inp) (\<lambda>b5.
     bind_err (climate_improved cfg inp b5 (validate_inputs inp)) (\<lambda>(breakdown, nts).
     bind_err (timber_mass cfg inp) (\<lambda>timber_t.
       Inr (result_of breakdown nts timber_t))))"

section \<open>Scenarios and read-outs\<close>

text \<open>
  Scenario A of the specification; the fields it leaves open take the defaults of the
  \<^verbatim>\<open>ModelInputs\<close> dataclass.
\<close>

definition scenario_A :: ModelInputs where
  "scenario_A =
     \<lparr> system_boundary = B2022, form_factor = 0.45, window_ratio = 0.20, floors = 6,
       building_height_m = None, structural_system = Betong, method = Prefabricerad_betong,
       heavy_concrete_design = False, climate_improved_materials = False,
       climate_improved_applicability = 1, basement = False, underground_garage = False,
       parking_ratio = 0.5, atemp_to_bta = 0.90, timber_t_per_m2_override = None \<rparr>"

text \<open>
  The default configuration with the generic baseline of the early scope set to 0: a
  well-formed configuration, used to show the division of step 6.
\<close>

definition zero_baseline_config :: ModelConfig where
  "zero_baseline_config = default_config\<lparr>median_kg_per_m2 := [(B2022, 0), (B2027, 373)]\<rparr>"

text \<open>Reading one category, the total or the timber mass off the outcome of a run.\<close>

definition category_value :: "py_error + ModelResult \<Rightarrow> string \<Rightarrow> real option" where
  "category_value res k =
     (case res of Inl e \<Rightarrow> None | Inr r \<Rightarrow> map_of (breakdown_kg_per_m2_bta r) k)"


definition timber_value :: "py_error + ModelResult \<Rightarrow> real option" where
  "timber_value res = (case res of Inl e \<Rightarrow> None | Inr r \<Rightarrow> Some (timber_t_per_m2_bta r))"

section \<open>Closed forms under the default configuration\<close>

text \<open>
  The definitions of this section are not source functions. They name the values the
  pipeline computes under \<open>default_config\<close>; the lemmas \<open>breakdown_pre_default\<close> and
  \<open>estimate_default\<close> below prove that the embedded pipeline computes exactly these.
\<close>

text \<open>
  The runs in which every conversion of the floor count to \<^verbatim>\<open>float\<close> succeeds:
  \<^verbatim>\<open>0.05 * (4 - inp.floors)\<close> is evaluated when \<^verbatim>\<open>floors < 4\<close>, \<^verbatim>\<open>float(inp.floors)\<close> when
  the height is given, non-zero and \<^verbatim>\<open>floors > 0\<close>.
\<close>

definition floors_in_float_range :: "ModelInputs \<Rightarrow> bool" where
  "floors_in_float_range inp =
     (4 - float_int_limit < floors inp \<and>
      (floors inp < float_int_limit \<or> building_height_m inp = None
        \<or> building_height_m inp = Some 0))"

definition height_factor_value :: "ModelInputs \<Rightarrow> real" where
  "height_factor_value inp =
     (case building_height_m inp of
        None \<Rightarrow> 1
      | Some h \<Rightarrow>
          if h \<noteq> 0 \<and> floors inp > 0
          then max 0.8 (min 1.3 (h / of_int (floors inp) / 2.8)) else 1)"

definition lowrise_factor_value :: "ModelInputs \<Rightarrow> real" where
  "lowrise_factor_value inp =
     (if floors inp < 4 then 1 + 0.05 * of_int (4 - floors inp) else 1)"

definition struct_mult :: "ModelConfig \<Rightarrow> ModelInputs \<Rightarrow> real" where
  "struct_mult cfg inp = method_mult cfg inp * heavy_mult inp * system_struct_mult inp"

definition baseline_of :: "SystemBoundary \<Rightarrow> real" where
  "baseline_of b = (case b of B2022 \<Rightarrow> 318 | B2027 \<Rightarrow> 373)"

definition improved_of :: "SystemBoundary \<Rightarrow> real" where
  "improved_of b = (case b of B2022 \<Rightarrow> 271 | B2027 \<Rightarrow> 325)"

definition pre_Stomme :: "ModelInputs \<Rightarrow> real" where
  "pre_Stomme inp =
     baseline_of (system_boundary inp)
       * (case system_boundary inp of B2022 \<Rightarrow> 0.50 | B2027 \<Rightarrow> 0.45)
       * struct_mult default_config inp"

definition pre_Grund :: "ModelInputs \<Rightarrow> real" where
  "pre_Grund inp =
     baseline_of (system_boundary inp) * 0.15 * lowrise_factor_value inp
       * struct_mult default_config inp
     + (if basement inp then 25 else 0)
     + (if underground_garage inp then 48 * atemp_to_bta inp * (parking_ratio inp / 0.5) else 0)"

definition pre_Klimatskarm :: "ModelInputs \<Rightarrow> real" where
  "pre_Klimatskarm inp =
     baseline_of (system_boundary inp)
       * (case system_boundary inp of B2022 \<Rightarrow> 0.25 | B2027 \<Rightarrow> 0.20)
       * (form_factor inp / 0.45 * height_factor_value inp
            * ((window_ratio inp * 4 + (1 - window_ratio inp)) / 1.6))
       * lowrise_factor_value inp"

definition pre_Innervaggar :: "ModelInputs \<Rightarrow> real" where
  "pre_Innervaggar inp =
     baseline_of (system_boundary inp) * 0.10 * struct_mult default_config inp"

definition pre_rest :: "ModelInputs \<Rightarrow> string dict" where
  "pre_rest inp =
     (case system_boundary inp of
        B2022 \<Rightarrow> []
      | B2027 \<Rightarrow> [(Invandiga_ytskikt, 37.3)])"

definition default_pre :: "ModelInputs \<Rightarrow> string dict" where
  "default_pre inp =
     [(Stomme, pre_Stomme inp), (Grund, pre_Grund inp),
      (Klimatskarm, pre_Klimatskarm inp), (Innervaggar, pre_Innervaggar inp)] @ pre_rest inp"

text \<open>One entry of the breakdown after the loop of step 6.\<close>

definition reduce_entry :: "real \<Rightarrow> real \<Rightarrow> string \<times> real \<Rightarrow> string \<times> real" where
  "reduce_entry target asum =
     (\<lambda>(k, v). if k = Stomme \<or> k = Grund \<or> k = Klimatskarm
               then (k, max 0 (v - target * (v / asum))) else (k, v))"

definition default_target :: "ModelInputs \<Rightarrow> real" where
  "default_target inp =
     (baseline_of (system_boundary inp) - improved_of (system_boundary inp))
       * (dict_values_sum (default_pre inp) / baseline_of (system_boundary inp))
       * climate_improved_applicability inp"

definition reduction_applies :: "ModelInputs \<Rightarrow> bool" where
  "reduction_applies inp =
     (0 < dict_values_sum (default_pre inp) \<and> 0 < affected_sum (default_pre inp))"

definition default_breakdown :: "ModelInputs \<Rightarrow> string dict" where
  "default_breakdown inp =
     (if climate_improved_materials inp \<and> reduction_applies inp
      then map (reduce_entry (default_target inp) (affected_sum (default_pre inp)))
             (default_pre inp)
      else default_pre inp)"

definition default_notes :: "ModelInputs \<Rightarrow> advisory list" where
  "default_notes inp =
     validate_inputs inp
       @ (if climate_improved_materials inp \<and> \<not> reduction_applies inp
          then [ImprovementSkippedNote] else [])"

definition default_timber :: "ModelInputs \<Rightarrow> real" where
  "default_timber inp =
     (case timber_t_per_m2_override inp of
        Some t \<Rightarrow> max 0 t
      | None \<Rightarrow> (case structural_system inp of Betong \<Rightarrow> 0.005 | Tra \<Rightarrow> 0.060 | Stal \<Rightarrow> 0.002))"

section \<open>Basic facts\<close>

lemma keys_distinct [simp]:
  "Stomme \<noteq> Grund" "Stomme \<noteq> Klimatskarm" "Stomme \<noteq> Innervaggar" "Stomme \<noteq> Invandiga_ytskikt"
  "Grund \<noteq> Stomme" "Grund \<noteq> Klimatskarm" "Grund \<noteq> Innervaggar" "Grund \<noteq> Invandiga_ytskikt"
  "Klimatskarm \<noteq> Stomme" "Klimatskarm \<noteq> Grund" "Klimatskarm \<noteq> Innervaggar"
  "Klimatskarm \<noteq> Invandiga_ytskikt"
  "Innervaggar \<noteq> Stomme" "Innervaggar \<noteq> Grund" "Innervaggar \<noteq> Klimatskarm"
  "Innervaggar \<noteq> Invandiga_ytskikt"
  "Invandiga_ytskikt \<noteq> Stomme" "Invandiga_ytskikt \<noteq> Grund"
  "Invandiga_ytskikt \<noteq> Klimatskarm" "Invandiga_ytskikt \<noteq> Innervaggar"
  by (simp_all add: Stomme_def Grund_def Klimatskarm_def Innervaggar_def Invandiga_ytskikt_def)

lemma float_int_limit_big: "1000000 < float_int_limit"
  by (simp add: float_int_limit_def)

lemma float_int_limit_pos: "0 < float_int_limit"
  using float_int_limit_big by linarith

lemma py_float_ok: "\<bar>n\<bar> < float_int_limit \<Longrightarrow> py_float n = Inr (of_int n)"
  by (simp add: py_float_def)

lemma py_float_overflow: "float_int_limit \<le> \<bar>n\<bar> \<Longrightarrow> py_float n = Inl OverflowError"
  by (simp add: py_float_def)

lemma bind_err_simps [simp]:
  "bind_err (Inl e) f = Inl e" "bind_err (Inr x) f = f x"
  by (simp_all add: bind_err_def)

lemma height_factor_closed:
  "height_factor inp =
     (if floors_in_float_range inp \<or> floors inp < 4 then Inr (height_factor_value inp)
      else Inl OverflowError)"
  using float_int_limit_big
  by (auto simp: height_factor_def height_factor_value_def floors_in_float_range_def
       py_float_def Let_def split: option.splits)

lemma dict_modify_simps [simp]:
  "dict_modify [] k f = []"
  "dict_modify ((k', v) # d) k f = (if k' = k then (k', f v) else (k', v)) # dict_modify d k f"
  by (simp_all add: dict_modify_def)

lemma dict_contains_simps [simp]:
  "dict_contains [] k = False"
  "dict_contains ((k', v) # d) k = (k' = k \<or> dict_contains d k)"
  by (auto simp: dict_contains_def)

lemma dict_get_simps [simp]:
  "dict_get [] k dflt = dflt"
  "dict_get ((k', v) # d) k dflt = (if k' = k then v else dict_get d k dflt)"
  by (auto simp: dict_get_def)

lemma dict_getitem_simps [simp]:
  "dict_getitem [] k = Inl KeyError"
  "dict_getitem ((k', v) # d) k = (if k' = k then Inr v else dict_getitem d k)"
  by (auto simp: dict_getitem_def)

lemma dict_values_sum_simps [simp]:
  "dict_values_sum [] = 0"
  "dict_values_sum ((k, v) # d) = v + dict_values_sum d"
  by (simp_all add: dict_values_sum_def)

lemma dict_modify_ident [simp]: "dict_modify b k (\<lambda>v. v) = b"
  by (induction b) auto

lemma lowrise_correction_closed:
  "lowrise_correction inp b =
     (if floors_in_float_range inp \<or> 4 \<le> floors inp
      then Inr (dict_modify (dict_modify b Grund (\<lambda>v. v * lowrise_factor_value inp))
                  Klimatskarm (\<lambda>v. v * lowrise_factor_value inp))
      else Inl OverflowError)"
  using float_int_limit_big
  by (auto simp: lowrise_correction_def lowrise_factor_value_def floors_in_float_range_def
       py_float_def Let_def)

lemma py_div_simps [simp]: "b \<noteq> 0 \<Longrightarrow> py_div a b = Inr (a / b)" "py_div a 0 = Inl ZeroDivisionError"
  by (simp_all add: py_div_def)

lemma breakdown_pre_default:
  "breakdown_pre default_config inp =
     (if floors_in_float_range inp then Inr (default_pre inp) else Inl OverflowError)"
proof (cases "system_boundary inp")
  case B2022
  then show ?thesis
    by (simp add: breakdown_pre_def default_config_def baseline_split_def
        envelope_scaling_def height_factor_closed
        lowrise_correction_closed Let_def structural_scaling_def
        below_grade_def garage_add_def default_pre_def pre_Stomme_def
        pre_Grund_def pre_Klimatskarm_def pre_Innervaggar_def pre_rest_def baseline_of_def
        struct_mult_def)
next
  case B2027
  then show ?thesis
    by (simp add: breakdown_pre_def default_config_def baseline_split_def
        envelope_scaling_def height_factor_closed
        lowrise_correction_closed Let_def structural_scaling_def
        below_grade_def garage_add_def default_pre_def pre_Stomme_def
        pre_Grund_def pre_Klimatskarm_def pre_Innervaggar_def pre_rest_def baseline_of_def
        struct_mult_def)
qed

lemma affected_fold:
  "foldl (\<lambda>b k. dict_modify b k f) b affected_keys =
     map (\<lambda>(k, v). if k = Stomme \<or> k = Grund \<or> k = Klimatskarm then (k, f v) else (k, v)) b"
  by (induction b) (auto simp: affected_keys_def)

lemma climate_improved_closed:
  assumes "dict_getitem (median_kg_per_m2_climate_improved cfg) (system_boundary inp) = Inr bi"
    and "dict_getitem (median_kg_per_m2 cfg) (system_boundary inp) = Inr bg"
    and "bg \<noteq> 0"
  shows "climate_improved cfg inp b nts =
     Inr (if climate_improved_materials inp then
            if 0 < dict_values_sum b \<and> 0 < affected_sum b
            then (map (reduce_entry
                         (max 0 (bg - bi) * (dict_values_sum b / bg)
                            * climate_improved_applicability inp)
                         (affected_sum b)) b, nts)
            else (b, nts @ [ImprovementSkippedNote])
          else (b, nts))"
proof -
  have "py_div (dict_values_sum b) bg = Inr (dict_values_sum b / bg)"
    using assms(3) by simp
  then show ?thesis
    unfolding climate_improved_def Let_def assms(1) assms(2) bind_err_simps affected_fold
      reduce_entry_def
    by simp
qed

lemma default_lookups:
  "dict_getitem (median_kg_per_m2 default_config) b = Inr (baseline_of b)"
  "dict_getitem (median_kg_per_m2_climate_improved default_config) b = Inr (improved_of b)"
  "baseline_of b \<noteq> 0"
  by (cases b; simp add: default_config_def baseline_of_def improved_of_def)+

lemma timber_mass_default: "timber_mass default_config inp = Inr (default_timber inp)"
  by (cases "structural_system inp")
     (simp_all add: timber_mass_def default_timber_def default_config_def split: option.splits)

lemma climate_improved_default:
  "climate_improved default_config inp (default_pre inp) (validate_inputs inp) =
     Inr (default_breakdown inp, default_notes inp)"
proof -
  have "max 0 (baseline_of b - improved_of b) = baseline_of b - improved_of b" for b
    by (cases b) (simp_all add: baseline_of_def improved_of_def)
  then show ?thesis
    by (simp add: climate_improved_closed [OF default_lookups(2) default_lookups(1) default_lookups(3)]
        default_breakdown_def default_notes_def reduction_applies_def default_target_def)
qed

lemma estimate_default:
  "estimate inp default_config =
     (if floors_in_float_range inp
      then Inr (result_of (default_breakdown inp) (default_notes inp) (default_timber inp))
      else Inl OverflowError)"
  by (simp add: estimate_def breakdown_pre_default climate_improved_default timber_mass_default)

lemma method_names_distinct [simp]:
  "Prefabricerad_betong \<noteq> Platsgjuten_latta" "Prefabricerad_betong \<noteq> Platsgjuten_kvarsittande"
  "Prefabricerad_betong \<noteq> Volymelement_i_tra" "Prefabricerad_betong \<noteq> KL_tra"
  "Platsgjuten_latta \<noteq> Platsgjuten_kvarsittande" "Platsgjuten_latta \<noteq> Volymelement_i_tra"
  "Platsgjuten_latta \<noteq> KL_tra" "Platsgjuten_kvarsittande \<noteq> Volymelement_i_tra"
  "Platsgjuten_kvarsittande \<noteq> KL_tra" "Volymelement_i_tra \<noteq> KL_tra"
  by (simp_all add: Prefabricerad_betong_def Platsgjuten_latta_def Platsgjuten_kvarsittande_def
      Volymelement_i_tra_def KL_tra_def)

lemma method_mult_default:
  "method_mult default_config inp =
     (if method inp = Platsgjuten_latta then 290 / 272
      else if method inp = Platsgjuten_kvarsittande then 331 / 272 else 1)"
  by (simp add: method_mult_def default_config_def)

lemmas closed_form_defs =
  default_breakdown_def default_notes_def default_timber_def default_pre_def pre_Stomme_def
  pre_Grund_def pre_Klimatskarm_def pre_Innervaggar_def pre_rest_def baseline_of_def
  improved_of_def struct_mult_def heavy_mult_def system_struct_mult_def
  height_factor_value_def lowrise_factor_value_def reduction_applies_def default_target_def
  affected_sum_def affected_keys_def reduce_entry_def validate_inputs_def result_of_def
  method_mult_default

lemma small_floors_in_range: "\<bar>floors inp\<bar> \<le> 1000 \<Longrightarrow> floors_in_float_range inp"
  unfolding floors_in_float_range_def
  using float_int_limit_big by (intro conjI disjI1) linarith+

lemma breakdown_pre_share_update:
  "breakdown_pre (cfg\<lparr>structure_affected_share_2022 := a, structure_affected_share_2027 := b\<rparr>) inp
     = breakdown_pre cfg inp"
proof -
  let ?cfg = "cfg\<lparr>structure_affected_share_2022 := a, structure_affected_share_2027 := b\<rparr>"
  have 1: "envelope_scaling ?cfg inp bd = envelope_scaling cfg inp bd" for bd
    by (simp add: envelope_scaling_def)
  have 2: "structural_scaling ?cfg inp bd = structural_scaling cfg inp bd" for bd
    by (simp add: structural_scaling_def method_mult_def)
  have 3: "below_grade ?cfg inp bd = below_grade cfg inp bd" for bd
    by (simp add: below_grade_def garage_add_def)
  show ?thesis
    by (simp add: breakdown_pre_def 1 2 3)
qed

lemma estimate_method_cong:
  assumes "method_mult cfg (inp\<lparr>method := m1\<rparr>) = method_mult cfg (inp\<lparr>method := m2\<rparr>)"
  shows "estimate (inp\<lparr>method := m1\<rparr>) cfg = estimate (inp\<lparr>method := m2\<rparr>) cfg"
proof -
  have hf: "height_factor (inp\<lparr>method := m\<rparr>) = height_factor inp" for m
    by (simp add: height_factor_def split: option.splits)
  have 1: "envelope_scaling cfg (inp\<lparr>method := m\<rparr>) bd = envelope_scaling cfg inp bd" for bd m
    by (simp add: envelope_scaling_def hf)
  have 2: "lowrise_correction (inp\<lparr>method := m\<rparr>) bd = lowrise_correction inp bd" for bd m
    by (simp add: lowrise_correction_def)
  have 3: "structural_scaling cfg (inp\<lparr>method := m1\<rparr>) bd
             = structural_scaling cfg (inp\<lparr>method := m2\<rparr>) bd" for bd
    using assms by (simp add: structural_scaling_def heavy_mult_def system_struct_mult_def)
  have 4: "below_grade cfg (inp\<lparr>method := m\<rparr>) bd = below_grade cfg inp bd" for bd m
    by (simp add: below_grade_def garage_add_def)
  have 5: "climate_improved cfg (inp\<lparr>method := m\<rparr>) bd nts = climate_improved cfg inp bd nts"
    for bd nts m
    by (simp add: climate_improved_def Let_def cong: if_cong)
  have 6: "timber_mass cfg (inp\<lparr>method := m\<rparr>) = timber_mass cfg inp" for m
    by (simp add: timber_mass_def split: option.splits)
  have 7: "validate_inputs (inp\<lparr>method := m\<rparr>) = validate_inputs inp" for m
    by (simp add: validate_inputs_def)
  have "breakdown_pre cfg (inp\<lparr>method := m1\<rparr>) = breakdown_pre cfg (inp\<lparr>method := m2\<rparr>)"
    by (simp add: breakdown_pre_def 1 2 3 4)
  then show ?thesis
    by (simp add: estimate_def 5 6 7)
qed

lemma result_of_simps [simp]:
  "breakdown_kg_per_m2_bta (result_of b n t) = b"
  "notes (result_of b n t) = n"
  "timber_t_per_m2_bta (result_of b n t) = t"
  "total_kg_per_m2_bta (result_of b n t) = dict_values_sum b"
  by (simp_all add: result_of_def Let_def)

lemma default_breakdown_Innervaggar:
  "default_breakdown inp ! 3 = (Innervaggar, pre_Innervaggar inp)"
  by (simp add: default_breakdown_def default_pre_def reduce_entry_def)

lemma struct_mult_factors_pos: "0 < heavy_mult inp * system_struct_mult inp"
  by (cases "structural_system inp")
     (simp_all add: heavy_mult_def system_struct_mult_def)

lemma validate_inputs_method [simp]: "validate_inputs (inp\<lparr>method := m\<rparr>) = validate_inputs inp"
  by (simp add: validate_inputs_def)

lemma floors_in_float_range_method [simp]:
  "floors_in_float_range (inp\<lparr>method := m\<rparr>) = floors_in_float_range inp"
  by (simp add: floors_in_float_range_def)

section \<open>Timber mass\<close>

text \<open>
  C3, as the code has it. Whenever a run returns a result: if a timber-mass override is
  provided, the timber mass of the result is the override clamped at zero, so it equals
  the override when that is positive and is 0 when the override is zero or negative; if
  no override is provided, it is the default mass intensity that the configuration gives
  for the structural system.
\<close>

theorem timber_mass_rule:
  assumes "estimate inp cfg = Inr r"
  shows "(\<forall>t. timber_t_per_m2_override inp = Some t \<longrightarrow>
            timber_t_per_m2_bta r = max 0 t \<and> (0 < t \<longrightarrow> timber_t_per_m2_bta r = t)
              \<and> (t \<le> 0 \<longrightarrow> timber_t_per_m2_bta r = 0))
       \<and> (timber_t_per_m2_override inp = None \<longrightarrow>
            dict_getitem (timber_t_per_m2_default_by_system cfg) (structural_system inp)
              = Inr (timber_t_per_m2_bta r))"
  using assms
  by (auto simp: estimate_def bind_err_def timber_mass_def result_of_def Let_def
      split: sum.splits option.splits prod.splits)

text \<open>
  The rule at scenario A: with an override of 0.02 ton/m2, with an override of -1, and
  with none.
\<close>

theorem timber_mass_rule_witness:
  "timber_value (estimate (scenario_A\<lparr>timber_t_per_m2_override := Some 0.02\<rparr>) default_config)
     = Some 0.02
   \<and> timber_value (estimate (scenario_A\<lparr>timber_t_per_m2_override := Some (- 1)\<rparr>) default_config)
     = Some 0
   \<and> timber_t_per_m2_override scenario_A = None
   \<and> timber_value (estimate scenario_A default_config) = Some 0.005
   \<and> dict_getitem (timber_t_per_m2_default_by_system default_config)
         (structural_system scenario_A) = Inr 0.005"
proof -
  have run: "estimate inp default_config
               = Inr (result_of (default_breakdown inp) (default_notes inp) (default_timber inp))"
    if "floors inp = 6" for inp
    using small_floors_in_range [of inp] that by (simp add: estimate_default)
  let ?a = "scenario_A\<lparr>timber_t_per_m2_override := Some 0.02\<rparr>"
  let ?b = "scenario_A\<lparr>timber_t_per_m2_override := Some (- 1)\<rparr>"
  have fl: "floors ?a = 6" "floors ?b = 6" "floors scenario_A = 6"
    by (simp_all add: scenario_A_def)
  have ov: "timber_t_per_m2_override ?a = Some 0.02" "timber_t_per_m2_override ?b = Some (- 1)"
    "timber_t_per_m2_override scenario_A = None"
    by (simp_all add: scenario_A_def)
  have sgn: "(0 :: real) < 0.02" "(- 1 :: real) \<le> 0"
    by simp_all
  from timber_mass_rule [OF run [OF fl(1)]] ov(1) sgn(1)
  have a: "timber_t_per_m2_bta (result_of (default_breakdown ?a) (default_notes ?a)
             (default_timber ?a)) = 0.02"
    by blast
  from timber_mass_rule [OF run [OF fl(2)]] ov(2) sgn(2)
  have b: "timber_t_per_m2_bta (result_of (default_breakdown ?b) (default_notes ?b)
             (default_timber ?b)) = 0"
    by blast
  from timber_mass_rule [OF run [OF fl(3)]] ov(3)
  have c: "dict_getitem (timber_t_per_m2_default_by_system default_config)
             (structural_system scenario_A)
           = Inr (timber_t_per_m2_bta (result_of (default_breakdown scenario_A)
                    (default_notes scenario_A) (default_timber scenario_A)))"
    by blast
  have d: "default_timber scenario_A = 0.005"
    by (simp add: default_timber_def scenario_A_def)
  have ta: "timber_value (estimate ?a default_config) = Some 0.02"
    unfolding timber_value_def run [OF fl(1)] using a by simp
  have tb: "timber_value (estimate ?b default_config) = Some 0"
    unfolding timber_value_def run [OF fl(2)] using b by simp
  have tc: "timber_value (estimate scenario_A default_config) = Some 0.005"
    unfolding timber_value_def run [OF fl(3)] using d by simp
  have td: "dict_getitem (timber_t_per_m2_default_by_system default_config)
              (structural_system scenario_A) = Inr 0.005"
    using c d by simp
  show ?thesis
    using ta tb tc td ov(3) by blast
qed

text \<open>
  With an override of 0 the result carries the timber mass 0, not the default 0.005 of
  the concrete system.
\<close>

theorem timber_override_zero_counterexample:
  "timber_value (estimate (scenario_A\<lparr>timber_t_per_m2_override := Some 0\<rparr>) default_config)
     = Some 0
   \<and> dict_getitem (timber_t_per_m2_default_by_system default_config) Betong = Inr 0.005"
proof -
  have "floors_in_float_range (scenario_A\<lparr>timber_t_per_m2_override := Some 0\<rparr>)"
    by (rule small_floors_in_range) (simp add: scenario_A_def)
  then have "estimate (scenario_A\<lparr>timber_t_per_m2_override := Some 0\<rparr>) default_config
      = Inr (result_of (default_breakdown (scenario_A\<lparr>timber_t_per_m2_override := Some 0\<rparr>))
               (default_notes (scenario_A\<lparr>timber_t_per_m2_override := Some 0\<rparr>)) 0)"
    by (simp add: estimate_default default_timber_def)
  then show ?thesis
    by (simp add: timber_value_def result_of_def Let_def default_config_def)
qed

section \<open>The floor-height factor\<close>

text \<open>
  C4, as the code has it. The floor-height factor is the clamp to [0.8, 1.3] of
  (building height / floor count) / 2.8 when the height is provided and positive and the
  floor count is positive; it is exactly 1 when the height is absent or zero or the
  floor count is not positive. A negative height with a positive floor count is not
  replaced by 1: the same clamp applies and gives 0.8. A floor count from
  \<open>2^1024 - 2^970\<close> on, with a non-zero height, raises \<^verbatim>\<open>OverflowError\<close>.
\<close>

theorem height_factor_cases:
  "height_factor inp =
     (case building_height_m inp of
        None \<Rightarrow> Inr 1
      | Some h \<Rightarrow>
          if h = 0 \<or> floors inp \<le> 0 then Inr 1
          else if float_int_limit \<le> floors inp then Inl OverflowError
          else if h < 0 then Inr 0.8
          else Inr (max 0.8 (min 1.3 ((h / of_int (floors inp)) / 2.8))))"
proof -
  have neg: "max 0.8 (min 1.3 (h / of_int (floors inp) / 2.8)) = (0.8 :: real)"
    if "h < 0" "0 < floors inp" for h
  proof -
    have "h / of_int (floors inp) / 2.8 < 0"
      using that by (simp add: divide_neg_pos)
    then show ?thesis by (simp add: max_def min_def)
  qed
  show ?thesis
    using float_int_limit_pos neg
    by (auto simp: height_factor_def py_float_def Let_def split: option.splits)
qed

text \<open>
  A height of -5 m with two floors: the factor is 0.8, where the specification's wording
  gives 1.0 for a negative height.
\<close>

theorem height_factor_negative_counterexample:
  "height_factor (scenario_A\<lparr>floors := 2, building_height_m := Some (- 5)\<rparr>) = Inr 0.8"
  using float_int_limit_big
  by (simp add: height_factor_def py_float_def scenario_A_def Let_def)

section \<open>Unused configuration fields\<close>

text \<open>
  C9. The structure-affected-share fields are never read: two configurations that agree
  on every other field give equal outcomes (equal results, or the same error) on every
  input.
\<close>

theorem affected_share_unused:
  assumes "cfg1\<lparr>structure_affected_share_2022 := 0, structure_affected_share_2027 := 0\<rparr>
             = cfg2\<lparr>structure_affected_share_2022 := 0, structure_affected_share_2027 := 0\<rparr>"
  shows "estimate inp cfg1 = estimate inp cfg2"
proof -
  have upd: "estimate inp (cfg\<lparr>structure_affected_share_2022 := a,
                                structure_affected_share_2027 := b\<rparr>) = estimate inp cfg"
    for cfg :: ModelConfig and a b
  proof -
    let ?cfg = "cfg\<lparr>structure_affected_share_2022 := a, structure_affected_share_2027 := b\<rparr>"
    have 1: "climate_improved ?cfg inp bd nts = climate_improved cfg inp bd nts" for bd nts
      by (simp add: climate_improved_def)
    have 2: "timber_mass ?cfg inp = timber_mass cfg inp"
      by (simp add: timber_mass_def split: option.splits)
    show ?thesis
      by (simp add: estimate_def breakdown_pre_share_update 1 2)
  qed
  have "estimate inp cfg1
          = estimate inp (cfg1\<lparr>structure_affected_share_2022 := 0,
                                structure_affected_share_2027 := 0\<rparr>)"
    by (simp only: upd)
  also have "\<dots> = estimate inp (cfg2\<lparr>structure_affected_share_2022 := 0,
                                     structure_affected_share_2027 := 0\<rparr>)"
    by (simp only: assms)
  also have "\<dots> = estimate inp cfg2"
    by (simp only: upd)
  finally show ?thesis .
qed

text \<open>
  The default configuration against one with both shares set to other values, at
  scenario A.
\<close>

theorem affected_share_unused_witness:
  "default_config\<lparr>structure_affected_share_2022 := 0, structure_affected_share_2027 := 0\<rparr>
     = (default_config\<lparr>structure_affected_share_2022 := 0.1,
                        structure_affected_share_2027 := 0.9\<rparr>)
         \<lparr>structure_affected_share_2022 := 0, structure_affected_share_2027 := 0\<rparr>
   \<and> estimate scenario_A default_config
       = estimate scenario_A (default_config\<lparr>structure_affected_share_2022 := 0.1,
                                               structure_affected_share_2027 := 0.9\<rparr>)"
proof -
  have h: "default_config\<lparr>structure_affected_share_2022 := 0,
                          structure_affected_share_2027 := 0\<rparr>
     = (default_config\<lparr>structure_affected_share_2022 := 0.1,
                        structure_affected_share_2027 := 0.9\<rparr>)
         \<lparr>structure_affected_share_2022 := 0, structure_affected_share_2027 := 0\<rparr>"
    by simp
  from affected_share_unused [OF h] show ?thesis
    using h by simp
qed

section \<open>No exception under the default configuration\<close>

text \<open>
  C5, as the code has it. Under the default configuration \<open>estimate\<close> returns a result
  for every input whose floor count converts to \<^verbatim>\<open>float\<close> wherever the code converts
  it, whatever the other numbers are; the notes of the result begin with the advisories
  of \<open>validate_inputs\<close>, which itself cannot fail, and contain the floor advisory when
  the floor count is below 1 and the form-factor advisory when the form factor is
  outside [0.2, 1.5]. In particular, with zero floors and form factor 5.0 a result is
  returned that carries both advisories. For a floor count outside the range of a
  double the run raises \<^verbatim>\<open>OverflowError\<close>.
\<close>

theorem estimate_returns:
  "(floors_in_float_range inp \<longrightarrow>
      (\<exists>r. estimate inp default_config = Inr r
         \<and> (\<exists>extra. notes r = validate_inputs inp @ extra)
         \<and> (floors inp < 1 \<longrightarrow> FloorsNote \<in> set (notes r))
         \<and> (\<not> (0.2 \<le> form_factor inp \<and> form_factor inp \<le> 1.5)
              \<longrightarrow> FormFactorNote \<in> set (notes r))))
   \<and> (\<not> floors_in_float_range inp \<longrightarrow> estimate inp default_config = Inl OverflowError)
   \<and> (floors inp = 0 \<and> form_factor inp = 5 \<longrightarrow>
        (\<exists>r. estimate inp default_config = Inr r
           \<and> FloorsNote \<in> set (notes r) \<and> FormFactorNote \<in> set (notes r)))"
proof -
  have zero: "floors_in_float_range inp" if "floors inp = 0"
    by (rule small_floors_in_range) (simp add: that)
  have fl: "FloorsNote \<in> set (default_notes inp)" if "floors inp < 1"
    using that by (simp add: default_notes_def validate_inputs_def)
  have ff: "FormFactorNote \<in> set (default_notes inp)"
    if "\<not> (0.2 \<le> form_factor inp \<and> form_factor inp \<le> 1.5)"
    using that by (simp add: default_notes_def validate_inputs_def)
  have ex: "\<exists>extra. default_notes inp = validate_inputs inp @ extra"
    by (simp add: default_notes_def)
  show ?thesis
    using zero fl ff ex by (auto simp: estimate_default)
qed

text \<open>
  Scenario D of the specification, zero floors and form factor 5.0; and a run with
  \<open>2^1024\<close> floors and a height of 3 m, which \<^verbatim>\<open>float(inp.floors)\<close> ends.
\<close>

theorem estimate_returns_witness:
  "floors (scenario_A\<lparr>floors := 0, form_factor := 5\<rparr>) = 0
   \<and> form_factor (scenario_A\<lparr>floors := 0, form_factor := 5\<rparr>) = 5
   \<and> floors_in_float_range (scenario_A\<lparr>floors := 0, form_factor := 5\<rparr>)
   \<and> (\<exists>r. estimate (scenario_A\<lparr>floors := 0, form_factor := 5\<rparr>) default_config = Inr r
         \<and> FloorsNote \<in> set (notes r) \<and> FormFactorNote \<in> set (notes r))
   \<and> \<not> floors_in_float_range (scenario_A\<lparr>floors := 2 ^ 1024, building_height_m := Some 3\<rparr>)
   \<and> estimate (scenario_A\<lparr>floors := 2 ^ 1024, building_height_m := Some 3\<rparr>) default_config
       = Inl OverflowError"
proof -
  have in_range: "floors_in_float_range (scenario_A\<lparr>floors := 0, form_factor := 5\<rparr>)"
    by (rule small_floors_in_range) simp
  have out: "\<not> floors_in_float_range (scenario_A\<lparr>floors := 2 ^ 1024, building_height_m := Some 3\<rparr>)"
    by (simp add: floors_in_float_range_def float_int_limit_def)
  show ?thesis
    using estimate_returns [of "scenario_A\<lparr>floors := 0, form_factor := 5\<rparr>"]
      estimate_returns [of "scenario_A\<lparr>floors := 2 ^ 1024, building_height_m := Some 3\<rparr>"]
      in_range out
    by simp
qed

text \<open>
  A floor count of \<open>- 2^1024\<close>: \<^verbatim>\<open>0.05 * (4 - inp.floors)\<close> cannot convert the integer
  and the run ends in \<^verbatim>\<open>OverflowError\<close>.
\<close>

theorem estimate_overflow_counterexample:
  "estimate (scenario_A\<lparr>floors := - (2 ^ 1024)\<rparr>) default_config = Inl OverflowError"
proof -
  have "\<not> floors_in_float_range (scenario_A\<lparr>floors := - (2 ^ 1024)\<rparr>)"
    by (simp add: floors_in_float_range_def float_int_limit_def)
  then show ?thesis
    by (simp add: estimate_default)
qed

section \<open>The climate-improved step\<close>

text \<open>
  C6, as the code has it. Let the climate-improved flag be set and both baselines be
  present in the configuration, with generic baseline \<open>bg\<close> and improved baseline
  \<open>bi\<close>. If the total of the breakdown and the sum of Stomme, Grund and Klimatskarm
  are both positive and \<open>bg\<close> is not zero, the step returns the breakdown in which each
  of these three categories \<open>v\<close> has become \<open>max 0 (v - T * (v / affected_sum))\<close>,
  with \<open>T = max 0 (bg - bi) * (total / bg) * applicability\<close>, every other category and
  the notes unchanged. If both sums are positive and \<open>bg\<close> is zero, the quotient
  \<open>total / bg\<close> raises \<^verbatim>\<open>ZeroDivisionError\<close>. If either sum is zero or negative, the
  step returns the breakdown unchanged with the advisory appended, and does not fail.
\<close>

theorem climate_improved_step:
  assumes "climate_improved_materials inp"
    and "dict_getitem (median_kg_per_m2_climate_improved cfg) (system_boundary inp) = Inr bi"
    and "dict_getitem (median_kg_per_m2 cfg) (system_boundary inp) = Inr bg"
  shows "(0 < dict_values_sum b \<and> 0 < affected_sum b \<and> bg \<noteq> 0 \<longrightarrow>
            climate_improved cfg inp b nts =
              Inr (map (\<lambda>(k, v).
                          if k \<in> set affected_keys
                          then (k, max 0 (v - (max 0 (bg - bi) * (dict_values_sum b / bg)
                                                 * climate_improved_applicability inp)
                                               * (v / affected_sum b)))
                          else (k, v)) b,
                   nts))
       \<and> (0 < dict_values_sum b \<and> 0 < affected_sum b \<and> bg = 0 \<longrightarrow>
            climate_improved cfg inp b nts = Inl ZeroDivisionError)
       \<and> (\<not> (0 < dict_values_sum b \<and> 0 < affected_sum b) \<longrightarrow>
            climate_improved cfg inp b nts = Inr (b, nts @ [ImprovementSkippedNote]))"
proof -
  define T where
    "T = max 0 (bg - bi) * (dict_values_sum b / bg) * climate_improved_applicability inp"
  have entry: "reduce_entry T a =
      (\<lambda>(k, v). if k \<in> set affected_keys then (k, max 0 (v - T * (v / a))) else (k, v))"
    for a
    by (auto simp: reduce_entry_def affected_keys_def fun_eq_iff)
  have applied: "climate_improved cfg inp b nts =
      Inr (map (\<lambda>(k, v). if k \<in> set affected_keys
                           then (k, max 0 (v - T * (v / affected_sum b))) else (k, v)) b, nts)"
    if "0 < dict_values_sum b" "0 < affected_sum b" "bg \<noteq> 0"
    unfolding climate_improved_closed [OF assms(2) assms(3) that(3)] T_def [symmetric] entry
    using that assms(1) by simp
  have raised: "climate_improved cfg inp b nts = Inl ZeroDivisionError"
    if "0 < dict_values_sum b" "0 < affected_sum b" "bg = 0"
    using that assms by (simp add: climate_improved_def Let_def)
  have skipped: "climate_improved cfg inp b nts = Inr (b, nts @ [ImprovementSkippedNote])"
    if "\<not> (0 < dict_values_sum b \<and> 0 < affected_sum b)"
  proof -
    from that have c: "(0 < dict_values_sum b \<and> 0 < affected_sum b) = False"
      by simp
    show ?thesis
      using assms by (simp add: climate_improved_def Let_def c)
  qed
  show ?thesis
    unfolding T_def [symmetric] using applied raised skipped by blast
qed

text \<open>
  The three branches at concrete breakdowns. Under the default configuration of the
  early scope (baselines 318 and 271) a breakdown with total and affected sum 318 has
  the reduction 47, which the structure, the foundation and the envelope bear by their
  shares 1/2, 1/4 and 1/4; a breakdown with a negative affected sum is returned with the
  advisory. Under the configuration whose generic baseline is 0 a breakdown with
  positive sums raises.
\<close>

theorem climate_improved_step_witness:
  "climate_improved_materials (scenario_A\<lparr>climate_improved_materials := True\<rparr>)
   \<and> climate_improved default_config (scenario_A\<lparr>climate_improved_materials := True\<rparr>)
        [(Stomme, 159), (Grund, 79.5), (Klimatskarm, 79.5), (Innervaggar, 0)] []
       = Inr ([(Stomme, 135.5), (Grund, 67.75), (Klimatskarm, 67.75), (Innervaggar, 0)], [])
   \<and> climate_improved default_config (scenario_A\<lparr>climate_improved_materials := True\<rparr>)
        [(Stomme, - 1), (Innervaggar, 5)] []
       = Inr ([(Stomme, - 1), (Innervaggar, 5)], [ImprovementSkippedNote])
   \<and> climate_improved zero_baseline_config (scenario_A\<lparr>climate_improved_materials := True\<rparr>)
        [(Stomme, 0), (Grund, 25), (Klimatskarm, 0), (Innervaggar, 0)] []
       = Inl ZeroDivisionError"
proof -
  let ?inp = "scenario_A\<lparr>climate_improved_materials := True\<rparr>"
  have flag: "climate_improved_materials ?inp"
    by simp
  have bi: "dict_getitem (median_kg_per_m2_climate_improved default_config)
              (system_boundary ?inp) = Inr 271"
    by (simp add: default_config_def scenario_A_def)
  have bg: "dict_getitem (median_kg_per_m2 default_config) (system_boundary ?inp) = Inr 318"
    by (simp add: default_config_def scenario_A_def)
  have bi0: "dict_getitem (median_kg_per_m2_climate_improved zero_baseline_config)
              (system_boundary ?inp) = Inr 271"
    by (simp add: zero_baseline_config_def default_config_def scenario_A_def)
  have bg0: "dict_getitem (median_kg_per_m2 zero_baseline_config) (system_boundary ?inp) = Inr 0"
    by (simp add: zero_baseline_config_def default_config_def scenario_A_def)
  have app: "climate_improved_applicability ?inp = 1"
    by (simp add: scenario_A_def)
  note step = climate_improved_step [OF flag bi bg]
  have 1: "climate_improved default_config ?inp
        [(Stomme, 159), (Grund, 79.5), (Klimatskarm, 79.5), (Innervaggar, 0)] []
       = Inr ([(Stomme, 135.5), (Grund, 67.75), (Klimatskarm, 67.75), (Innervaggar, 0)], [])"
    using step [of "[(Stomme, 159), (Grund, 79.5), (Klimatskarm, 79.5), (Innervaggar, 0)]" "[]"]
    by (simp add: affected_sum_def affected_keys_def app)
  have 2: "climate_improved default_config ?inp [(Stomme, - 1), (Innervaggar, 5)] []
       = Inr ([(Stomme, - 1), (Innervaggar, 5)], [ImprovementSkippedNote])"
    using step [of "[(Stomme, - 1), (Innervaggar, 5)]" "[]"]
    by (simp add: affected_sum_def affected_keys_def)
  have 3: "climate_improved zero_baseline_config ?inp
        [(Stomme, 0), (Grund, 25), (Klimatskarm, 0), (Innervaggar, 0)] []
       = Inl ZeroDivisionError"
    using climate_improved_step [OF flag bi0 bg0,
        of "[(Stomme, 0), (Grund, 25), (Klimatskarm, 0), (Innervaggar, 0)]" "[]"]
    by (simp add: affected_sum_def affected_keys_def)
  show ?thesis
    using flag 1 2 3 by blast
qed

text \<open>
  Scenario A with the basement and the climate-improved flag set, under the
  configuration whose generic baseline is 0: after step 5 the foundation is the basement
  add-on 25 and every other category is 0, so both sums are 25; step 6 divides the total
  by the baseline and the run ends in \<^verbatim>\<open>ZeroDivisionError\<close>.
\<close>

theorem zero_baseline_counterexample:
  "climate_improved_materials (scenario_A\<lparr>basement := True, climate_improved_materials := True\<rparr>)
   \<and> breakdown_pre zero_baseline_config
         (scenario_A\<lparr>basement := True, climate_improved_materials := True\<rparr>)
       = Inr [(Stomme, 0), (Grund, 25), (Klimatskarm, 0), (Innervaggar, 0)]
   \<and> dict_values_sum [(Stomme, 0), (Grund, 25), (Klimatskarm, 0), (Innervaggar, 0 :: real)] = 25
   \<and> affected_sum [(Stomme, 0), (Grund, 25), (Klimatskarm, 0), (Innervaggar, 0)] = 25
   \<and> climate_improved zero_baseline_config
         (scenario_A\<lparr>basement := True, climate_improved_materials := True\<rparr>)
         [(Stomme, 0), (Grund, 25), (Klimatskarm, 0), (Innervaggar, 0)] []
       = Inl ZeroDivisionError
   \<and> estimate (scenario_A\<lparr>basement := True, climate_improved_materials := True\<rparr>)
         zero_baseline_config = Inl ZeroDivisionError"
proof -
  let ?inp = "scenario_A\<lparr>basement := True, climate_improved_materials := True\<rparr>"
  let ?b = "[(Stomme, 0), (Grund, 25), (Klimatskarm, 0), (Innervaggar, 0 :: real)]"
  have pre: "breakdown_pre zero_baseline_config ?inp = Inr ?b"
    by (simp add: breakdown_pre_def zero_baseline_config_def default_config_def
        baseline_split_def envelope_scaling_def height_factor_def lowrise_correction_def
        structural_scaling_def method_mult_def heavy_mult_def system_struct_mult_def
        below_grade_def scenario_A_def Let_def)
  have sums: "dict_values_sum ?b = 25" "affected_sum ?b = 25"
    by (simp_all add: affected_sum_def affected_keys_def)
  have step: "climate_improved zero_baseline_config ?inp ?b nts = Inl ZeroDivisionError" for nts
    by (simp add: climate_improved_def zero_baseline_config_def default_config_def
        affected_sum_def affected_keys_def scenario_A_def Let_def)
  have run: "estimate ?inp zero_baseline_config = Inl ZeroDivisionError"
    by (simp add: estimate_def pre step)
  show ?thesis
    using pre sums step run by simp
qed

section \<open>Construction methods\<close>

text \<open>
  C10. Under the default configuration the reference method and the two timber methods
  have multiplier 1, as has every unrecognised name: replacing the method by any name
  other than the two cast-in-place concrete methods gives the same outcome for every
  input. The two cast-in-place methods do change it: whenever the run returns a result,
  that result differs from the one of the reference method.
\<close>

theorem method_only_cast_in_place:
  "(m1 \<notin> {Platsgjuten_latta, Platsgjuten_kvarsittande}
      \<and> m2 \<notin> {Platsgjuten_latta, Platsgjuten_kvarsittande} \<longrightarrow>
      estimate (inp\<lparr>method := m1\<rparr>) default_config
        = estimate (inp\<lparr>method := m2\<rparr>) default_config)
   \<and> (m \<in> {Platsgjuten_latta, Platsgjuten_kvarsittande} \<and> floors_in_float_range inp \<longrightarrow>
        estimate (inp\<lparr>method := m\<rparr>) default_config
          \<noteq> estimate (inp\<lparr>method := Prefabricerad_betong\<rparr>) default_config)
   \<and> method_mult default_config (inp\<lparr>method := Prefabricerad_betong\<rparr>) = 1
   \<and> method_mult default_config (inp\<lparr>method := Volymelement_i_tra\<rparr>) = 1
   \<and> method_mult default_config (inp\<lparr>method := KL_tra\<rparr>) = 1"
proof -
  have same: "estimate (inp\<lparr>method := m1\<rparr>) default_config
                = estimate (inp\<lparr>method := m2\<rparr>) default_config"
    if "m1 \<notin> {Platsgjuten_latta, Platsgjuten_kvarsittande}"
      and "m2 \<notin> {Platsgjuten_latta, Platsgjuten_kvarsittande}"
    using that by (intro estimate_method_cong) (simp add: method_mult_default)
  have differ: "estimate (inp\<lparr>method := m\<rparr>) default_config
                  \<noteq> estimate (inp\<lparr>method := Prefabricerad_betong\<rparr>) default_config"
    if m: "m \<in> {Platsgjuten_latta, Platsgjuten_kvarsittande}" and ok: "floors_in_float_range inp"
  proof
    assume "estimate (inp\<lparr>method := m\<rparr>) default_config
              = estimate (inp\<lparr>method := Prefabricerad_betong\<rparr>) default_config"
    then have "default_breakdown (inp\<lparr>method := m\<rparr>)
                 = default_breakdown (inp\<lparr>method := Prefabricerad_betong\<rparr>)"
      using ok by (simp add: estimate_default result_of_def Let_def)
    then have "default_breakdown (inp\<lparr>method := m\<rparr>) ! 3
                 = default_breakdown (inp\<lparr>method := Prefabricerad_betong\<rparr>) ! 3"
      by simp
    then have eq: "pre_Innervaggar (inp\<lparr>method := m\<rparr>)
                 = pre_Innervaggar (inp\<lparr>method := Prefabricerad_betong\<rparr>)"
      by (simp add: default_breakdown_Innervaggar)
    have mm: "method_mult default_config (inp\<lparr>method := m\<rparr>) \<noteq> 1"
      using m by (auto simp: method_mult_default)
    have hs: "heavy_mult (inp\<lparr>method := x\<rparr>) * system_struct_mult (inp\<lparr>method := x\<rparr>)
                = heavy_mult inp * system_struct_mult inp" for x
      by (simp add: heavy_mult_def system_struct_mult_def)
    have b: "baseline_of (system_boundary inp) \<noteq> 0"
      by (rule default_lookups)
    from eq have "method_mult default_config (inp\<lparr>method := m\<rparr>)
                    * (heavy_mult inp * system_struct_mult inp)
                  = 1 * (heavy_mult inp * system_struct_mult inp)"
      using b hs by (simp add: pre_Innervaggar_def struct_mult_def method_mult_default mult.assoc)
    moreover have "heavy_mult inp * system_struct_mult inp \<noteq> 0"
      using struct_mult_factors_pos [of inp] by linarith
    ultimately have "method_mult default_config (inp\<lparr>method := m\<rparr>) = 1"
      by (metis mult_cancel_right)
    with mm show False
      by simp
  qed
  have ones: "method_mult default_config (inp\<lparr>method := Prefabricerad_betong\<rparr>) = 1"
    "method_mult default_config (inp\<lparr>method := Volymelement_i_tra\<rparr>) = 1"
    "method_mult default_config (inp\<lparr>method := KL_tra\<rparr>) = 1"
    by (simp_all add: method_mult_default method_names_distinct [symmetric])
  show ?thesis
    using same differ ones by blast
qed

text \<open>
  At scenario A: the two timber methods give the same outcome, the cast-in-place method
  with light infill walls a different one than prefabricated concrete.
\<close>

theorem method_only_cast_in_place_witness:
  "Volymelement_i_tra \<notin> {Platsgjuten_latta, Platsgjuten_kvarsittande}
   \<and> KL_tra \<notin> {Platsgjuten_latta, Platsgjuten_kvarsittande}
   \<and> estimate (scenario_A\<lparr>method := Volymelement_i_tra\<rparr>) default_config
       = estimate (scenario_A\<lparr>method := KL_tra\<rparr>) default_config
   \<and> floors_in_float_range scenario_A
   \<and> estimate (scenario_A\<lparr>method := Platsgjuten_latta\<rparr>) default_config
       \<noteq> estimate (scenario_A\<lparr>method := Prefabricerad_betong\<rparr>) default_config"
proof -
  have ok: "floors_in_float_range scenario_A"
    by (rule small_floors_in_range) (simp add: scenario_A_def)
  have names: "Volymelement_i_tra \<notin> {Platsgjuten_latta, Platsgjuten_kvarsittande}"
    "KL_tra \<notin> {Platsgjuten_latta, Platsgjuten_kvarsittande}"
    by (simp_all add: method_names_distinct [symmetric])
  show ?thesis
    using method_only_cast_in_place
            [of Volymelement_i_tra KL_tra scenario_A Platsgjuten_latta] ok names
    by blast
qed

section \<open>Signs of the categories\<close>

text \<open>
  Under the default configuration the structural multipliers are positive and the
  low-rise factor is at least 1, so the structure and the interior walls are positive
  after step 5.
\<close>

lemma method_mult_default_ge: "1 \<le> method_mult default_config inp"
  by (simp add: method_mult_default)

lemma heavy_mult_ge: "1 \<le> heavy_mult inp"
  by (simp add: heavy_mult_def)

lemma system_struct_mult_pos: "0 < system_struct_mult inp"
  by (cases "structural_system inp") (simp_all add: system_struct_mult_def)

lemma struct_mult_default_pos: "0 < struct_mult default_config inp"
proof -
  have "0 < method_mult default_config inp"
    using method_mult_default_ge [of inp] by linarith
  moreover have "0 < heavy_mult inp"
    using heavy_mult_ge [of inp] by linarith
  ultimately show ?thesis
    unfolding struct_mult_def by (intro mult_pos_pos system_struct_mult_pos)
qed

lemma baseline_of_pos: "0 < baseline_of b"
  by (cases b) (simp_all add: baseline_of_def)


lemma pre_Stomme_pos: "0 < pre_Stomme inp"
  unfolding pre_Stomme_def
  by (cases "system_boundary inp")
     (simp_all add: baseline_of_def struct_mult_default_pos)

lemma pre_Innervaggar_pos: "0 < pre_Innervaggar inp"
  unfolding pre_Innervaggar_def
  using baseline_of_pos [of "system_boundary inp"] struct_mult_default_pos [of inp]
  by simp

lemma estimate_default_Inr:
  "estimate inp default_config = Inr r \<longleftrightarrow>
     floors_in_float_range inp
     \<and> r = result_of (default_breakdown inp) (default_notes inp) (default_timber inp)"
  by (auto simp: estimate_default)

lemma default_pre_Grund [simp]: "dict_get (default_pre inp) Grund 0 = pre_Grund inp"
  by (simp add: default_pre_def)

lemma default_pre_Klimatskarm [simp]:
  "dict_get (default_pre inp) Klimatskarm 0 = pre_Klimatskarm inp"
  by (simp add: default_pre_def)

lemma default_breakdown_nonneg_cases:
  assumes "(climate_improved_materials inp \<and> reduction_applies inp)
           \<or> (0 \<le> pre_Klimatskarm inp \<and> 0 \<le> pre_Grund inp)"
  shows "\<forall>kv \<in> set (default_breakdown inp). 0 \<le> snd kv"
proof (cases "climate_improved_materials inp \<and> reduction_applies inp")
  case True
  then show ?thesis
    using pre_Innervaggar_pos [of inp]
    by (cases "system_boundary inp")
       (simp_all add: default_breakdown_def default_pre_def pre_rest_def reduce_entry_def)
next
  case False
  with assms have "0 \<le> pre_Klimatskarm inp" "0 \<le> pre_Grund inp"
    by blast+
  then show ?thesis
    using False pre_Stomme_pos [of inp] pre_Innervaggar_pos [of inp]
    by (cases "system_boundary inp")
       (auto simp: default_breakdown_def default_pre_def pre_rest_def)
qed

text \<open>
  C1, as the code has it. Under the default configuration every category value of the
  returned breakdown is at least 0 in each of two cases: step 6 applies its reduction
  (the flag is set and the total and the affected sum after step 5 are both positive),
  which clamps the structure, the foundation and the envelope at 0 for every
  applicability; or the envelope and the foundation are at least 0 after step 5. The
  other categories are positive in every run. No step before step 6 clamps, so a
  negative envelope or foundation that step 6 does not treat stays in the result.
\<close>

theorem breakdown_nonnegative:
  assumes pre: "breakdown_pre default_config inp = Inr b"
    and run: "estimate inp default_config = Inr r"
    and cond: "(climate_improved_materials inp \<and> 0 < dict_values_sum b \<and> 0 < affected_sum b)
               \<or> (0 \<le> dict_get b Klimatskarm 0 \<and> 0 \<le> dict_get b Grund 0)"
  shows "\<forall>(k, v) \<in> set (breakdown_kg_per_m2_bta r). 0 \<le> v"
proof -
  from run have ok: "floors_in_float_range inp"
    and r: "breakdown_kg_per_m2_bta r = default_breakdown inp"
    by (simp_all add: estimate_default_Inr)
  from pre ok have b: "b = default_pre inp"
    by (simp add: breakdown_pre_default)
  from cond have "(climate_improved_materials inp \<and> reduction_applies inp)
           \<or> (0 \<le> pre_Klimatskarm inp \<and> 0 \<le> pre_Grund inp)"
    by (simp add: b reduction_applies_def)
  from default_breakdown_nonneg_cases [OF this] show ?thesis
    by (auto simp: r)
qed

text \<open>
  Scenario A with form factor -1 and the climate-improved flag set, applicability 1: the
  envelope is negative after step 5, both sums are positive, the reduction applies and
  clamps the envelope to 0. Scenario A with window ratio -0.2 and the flag off: the
  envelope and the foundation are at least 0 after step 5 and in the result.
\<close>

theorem breakdown_nonnegative_witness:
  "climate_improved_materials (scenario_A\<lparr>form_factor := - 1, climate_improved_materials := True\<rparr>)
   \<and> (\<exists>b r. breakdown_pre default_config
                 (scenario_A\<lparr>form_factor := - 1, climate_improved_materials := True\<rparr>) = Inr b
            \<and> estimate (scenario_A\<lparr>form_factor := - 1, climate_improved_materials := True\<rparr>)
                 default_config = Inr r
            \<and> 0 < dict_values_sum b \<and> 0 < affected_sum b
            \<and> dict_get b Klimatskarm 0 < 0
            \<and> dict_get (breakdown_kg_per_m2_bta r) Klimatskarm 0 = 0
            \<and> 0 \<le> dict_get (breakdown_kg_per_m2_bta r) Stomme 0
            \<and> 0 \<le> dict_get (breakdown_kg_per_m2_bta r) Grund 0
            \<and> 0 \<le> dict_get (breakdown_kg_per_m2_bta r) Innervaggar 0)
   \<and> \<not> climate_improved_materials (scenario_A\<lparr>window_ratio := - 0.2\<rparr>)
   \<and> (\<exists>b r. breakdown_pre default_config (scenario_A\<lparr>window_ratio := - 0.2\<rparr>) = Inr b
            \<and> estimate (scenario_A\<lparr>window_ratio := - 0.2\<rparr>) default_config = Inr r
            \<and> 0 \<le> dict_get b Klimatskarm 0 \<and> 0 \<le> dict_get b Grund 0
            \<and> 0 \<le> dict_get (breakdown_kg_per_m2_bta r) Klimatskarm 0
            \<and> 0 \<le> dict_get (breakdown_kg_per_m2_bta r) Stomme 0
            \<and> 0 \<le> dict_get (breakdown_kg_per_m2_bta r) Grund 0
            \<and> 0 \<le> dict_get (breakdown_kg_per_m2_bta r) Innervaggar 0)"
proof -
  let ?a = "scenario_A\<lparr>form_factor := - 1, climate_improved_materials := True\<rparr>"
  let ?ba = "[(Stomme, 159), (Grund, 47.7), (Klimatskarm, - (530 / 3)), (Innervaggar, 31.8 :: real)]"
  let ?ra = "\<lparr> total_kg_per_m2_bta = 11941 / 68, total_t_per_m2_bta = 11941 / 68000,
             reference_kg_per_m2_bta = 375, delta_vs_reference_kg = - (13559 / 68),
             delta_vs_reference_percent = - (13559 / 255),
             breakdown_kg_per_m2_bta =
               [(Stomme, 3761 / 34), (Grund, 11283 / 340), (Klimatskarm, 0), (Innervaggar, 31.8)],
             timber_t_per_m2_bta = 0.005, notes = [FormFactorNote] \<rparr>"
  let ?w = "scenario_A\<lparr>window_ratio := - 0.2\<rparr>"
  let ?bw = "[(Stomme, 159), (Grund, 47.7), (Klimatskarm, 19.875), (Innervaggar, 31.8 :: real)]"
  let ?rw = "\<lparr> total_kg_per_m2_bta = 2067 / 8, total_t_per_m2_bta = 2067 / 8000,
             reference_kg_per_m2_bta = 375, delta_vs_reference_kg = - (933 / 8),
             delta_vs_reference_percent = - (311 / 10),
             breakdown_kg_per_m2_bta = ?bw,
             timber_t_per_m2_bta = 0.005, notes = [WindowRatioNote] \<rparr>"
  have ok: "floors_in_float_range ?a" "floors_in_float_range ?w"
    by (rule small_floors_in_range, simp add: scenario_A_def)+
  have flag: "climate_improved_materials ?a" and noflag: "\<not> climate_improved_materials ?w"
    by (simp_all add: scenario_A_def)
  have pa: "breakdown_pre default_config ?a = Inr ?ba"
    using ok(1) by (simp add: breakdown_pre_default closed_form_defs scenario_A_def)
  have pw: "breakdown_pre default_config ?w = Inr ?bw"
    using ok(2) by (simp add: breakdown_pre_default closed_form_defs scenario_A_def)
  have ra: "estimate ?a default_config = Inr ?ra"
    using ok(1) by (simp add: estimate_default closed_form_defs scenario_A_def Let_def)
  have rw: "estimate ?w default_config = Inr ?rw"
    using ok(2) by (simp add: estimate_default closed_form_defs scenario_A_def Let_def)
  have sa: "0 < dict_values_sum ?ba" "0 < affected_sum ?ba" "dict_get ?ba Klimatskarm 0 < 0"
    by (simp_all add: affected_sum_def affected_keys_def)
  have sw: "0 \<le> dict_get ?bw Klimatskarm 0" "0 \<le> dict_get ?bw Grund 0"
    by simp_all
  have ca: "(climate_improved_materials ?a \<and> 0 < dict_values_sum ?ba \<and> 0 < affected_sum ?ba)
            \<or> (0 \<le> dict_get ?ba Klimatskarm 0 \<and> 0 \<le> dict_get ?ba Grund 0)"
    using flag sa by blast
  have cw: "(climate_improved_materials ?w \<and> 0 < dict_values_sum ?bw \<and> 0 < affected_sum ?bw)
            \<or> (0 \<le> dict_get ?bw Klimatskarm 0 \<and> 0 \<le> dict_get ?bw Grund 0)"
    using sw by blast
  have ka: "dict_get (breakdown_kg_per_m2_bta ?ra) Klimatskarm 0 = 0"
    by simp
  have na: "0 \<le> dict_get (breakdown_kg_per_m2_bta ?ra) Stomme 0"
    "0 \<le> dict_get (breakdown_kg_per_m2_bta ?ra) Grund 0"
    "0 \<le> dict_get (breakdown_kg_per_m2_bta ?ra) Innervaggar 0"
    using breakdown_nonnegative [OF pa ra ca] by simp_all
  have nw: "0 \<le> dict_get (breakdown_kg_per_m2_bta ?rw) Klimatskarm 0"
    "0 \<le> dict_get (breakdown_kg_per_m2_bta ?rw) Stomme 0"
    "0 \<le> dict_get (breakdown_kg_per_m2_bta ?rw) Grund 0"
    "0 \<le> dict_get (breakdown_kg_per_m2_bta ?rw) Innervaggar 0"
    using breakdown_nonnegative [OF pw rw cw] by simp_all
  have A: "\<exists>b r. breakdown_pre default_config ?a = Inr b
            \<and> estimate ?a default_config = Inr r
            \<and> 0 < dict_values_sum b \<and> 0 < affected_sum b
            \<and> dict_get b Klimatskarm 0 < 0
            \<and> dict_get (breakdown_kg_per_m2_bta r) Klimatskarm 0 = 0
            \<and> 0 \<le> dict_get (breakdown_kg_per_m2_bta r) Stomme 0
            \<and> 0 \<le> dict_get (breakdown_kg_per_m2_bta r) Grund 0
            \<and> 0 \<le> dict_get (breakdown_kg_per_m2_bta r) Innervaggar 0"
    using pa ra sa ka na by blast
  have W: "\<exists>b r. breakdown_pre default_config ?w = Inr b
            \<and> estimate ?w default_config = Inr r
            \<and> 0 \<le> dict_get b Klimatskarm 0 \<and> 0 \<le> dict_get b Grund 0
            \<and> 0 \<le> dict_get (breakdown_kg_per_m2_bta r) Klimatskarm 0
            \<and> 0 \<le> dict_get (breakdown_kg_per_m2_bta r) Stomme 0
            \<and> 0 \<le> dict_get (breakdown_kg_per_m2_bta r) Grund 0
            \<and> 0 \<le> dict_get (breakdown_kg_per_m2_bta r) Innervaggar 0"
    using pw rw sw nw by blast
  show ?thesis
    using flag noflag A W by blast
qed

text \<open>
  Scenario A with form factor -0.45: the quotient of the form factors is -1 and the
  envelope category of the result is -79.5 kg/m2. Scenario A with the garage flag set
  and parking ratio -1: the add-on is 48.0 * 0.90 * (-1 / 0.5), and the foundation
  category of the result, 318 * 0.15 plus the add-on, is negative (about -38.7 kg/m2).
\<close>

theorem negative_category_counterexample:
  "category_value (estimate (scenario_A\<lparr>form_factor := - 0.45\<rparr>) default_config) Klimatskarm
     = Some (- 79.5)
   \<and> category_value
       (estimate (scenario_A\<lparr>underground_garage := True, parking_ratio := - 1\<rparr>) default_config)
       Grund = Some (318 * 0.15 + 48 * 0.90 * (- 1 / 0.5))
   \<and> (318 * 0.15 + 48 * 0.90 * (- 1 / 0.5) :: real) < 0"
proof -
  have ok: "floors_in_float_range (scenario_A\<lparr>form_factor := - 0.45\<rparr>)"
    "floors_in_float_range (scenario_A\<lparr>underground_garage := True, parking_ratio := - 1\<rparr>)"
    by (rule small_floors_in_range, simp add: scenario_A_def)+
  have 1: "category_value (estimate (scenario_A\<lparr>form_factor := - 0.45\<rparr>) default_config)
             Klimatskarm = Some (- 79.5)"
    using ok(1)
    by (simp add: category_value_def estimate_default closed_form_defs scenario_A_def Let_def)
  have 2: "category_value
       (estimate (scenario_A\<lparr>underground_garage := True, parking_ratio := - 1\<rparr>) default_config)
       Grund = Some (318 * 0.15 + 48 * 0.90 * (- 1 / 0.5))"
    using ok(2)
    by (simp add: category_value_def estimate_default closed_form_defs scenario_A_def Let_def)
  have 3: "(318 * 0.15 + 48 * 0.90 * (- 1 / 0.5) :: real) < 0"
    by simp
  show ?thesis
    using 1 2 3 by blast
qed

section \<open>Underground garage\<close>

lemma floors_in_float_range_garage [simp]:
  "floors_in_float_range (inp\<lparr>underground_garage := g\<rparr>) = floors_in_float_range inp"
  by (simp add: floors_in_float_range_def)

lemma pre_Grund_garage:
  "pre_Grund (inp\<lparr>underground_garage := True\<rparr>)
     = pre_Grund (inp\<lparr>underground_garage := False\<rparr>)
       + 48 * atemp_to_bta inp * (parking_ratio inp / 0.5)"
  by (simp add: pre_Grund_def lowrise_factor_value_def struct_mult_def method_mult_def
      heavy_mult_def system_struct_mult_def)

lemma pre_values_garage [simp]:
  "pre_Stomme (inp\<lparr>underground_garage := g\<rparr>) = pre_Stomme inp"
  "pre_Klimatskarm (inp\<lparr>underground_garage := g\<rparr>) = pre_Klimatskarm inp"
  "pre_Innervaggar (inp\<lparr>underground_garage := g\<rparr>) = pre_Innervaggar inp"
  "pre_rest (inp\<lparr>underground_garage := g\<rparr>) = pre_rest inp"
  by (simp_all add: pre_Stomme_def pre_Klimatskarm_def pre_Innervaggar_def pre_rest_def
      struct_mult_def method_mult_def heavy_mult_def system_struct_mult_def
      height_factor_value_def lowrise_factor_value_def split: option.splits)

lemma default_pre_garage:
  "default_pre (inp\<lparr>underground_garage := True\<rparr>)
     = dict_setitem (default_pre (inp\<lparr>underground_garage := False\<rparr>)) Grund
         (dict_get (default_pre (inp\<lparr>underground_garage := False\<rparr>)) Grund 0
            + 48 * atemp_to_bta inp * (parking_ratio inp / 0.5))"
  by (simp add: default_pre_def pre_Grund_garage)

lemma default_unflagged [simp]:
  "\<not> climate_improved_materials inp \<Longrightarrow> default_breakdown inp = default_pre inp"
  by (simp add: default_breakdown_def)

text \<open>
  C7, as the code has it. Under the default configuration, with parking ratio 0.5 and
  heated-area ratio 0.90, whenever the run without the garage flag reaches step 6 with
  breakdown \<open>b0\<close>, the run that differs only in having the flag set reaches step 6 with
  the same breakdown except for the foundation, which is the foundation of \<open>b0\<close> plus
  the add-on 48.0 * 0.90 * (0.5 / 0.5), the sum the code computes. When the
  climate-improved flag is off, step 6 changes nothing and the same holds of the
  breakdowns of the two results. The statement is the sum as computed, not a difference
  of the two results.
\<close>

theorem garage_adds_to_foundation:
  assumes "parking_ratio inp = 0.5" and "atemp_to_bta inp = 0.90"
    and "breakdown_pre default_config (inp\<lparr>underground_garage := False\<rparr>) = Inr b0"
  shows "breakdown_pre default_config (inp\<lparr>underground_garage := True\<rparr>)
           = Inr (dict_setitem b0 Grund (dict_get b0 Grund 0 + 48 * 0.90 * (0.5 / 0.5)))
       \<and> (\<not> climate_improved_materials inp \<longrightarrow>
            (\<exists>r0 r1. estimate (inp\<lparr>underground_garage := False\<rparr>) default_config = Inr r0
               \<and> estimate (inp\<lparr>underground_garage := True\<rparr>) default_config = Inr r1
               \<and> breakdown_kg_per_m2_bta r0 = b0
               \<and> breakdown_kg_per_m2_bta r1
                   = dict_setitem b0 Grund (dict_get b0 Grund 0 + 48 * 0.90 * (0.5 / 0.5))))"
proof -
  let ?i0 = "inp\<lparr>underground_garage := False\<rparr>" and ?i1 = "inp\<lparr>underground_garage := True\<rparr>"
  from assms(3) have ok: "floors_in_float_range inp" and b0: "b0 = default_pre ?i0"
    by (auto simp: breakdown_pre_default split: if_splits)
  have b1: "default_pre ?i1
              = dict_setitem b0 Grund (dict_get b0 Grund 0 + 48 * 0.90 * (0.5 / 0.5))"
    unfolding b0 default_pre_garage assms(1) assms(2) ..
  have pre1: "breakdown_pre default_config ?i1
           = Inr (dict_setitem b0 Grund (dict_get b0 Grund 0 + 48 * 0.90 * (0.5 / 0.5)))"
    using ok by (simp only: breakdown_pre_default floors_in_float_range_garage if_True b1)
  have res: "\<exists>r0 r1. estimate ?i0 default_config = Inr r0
               \<and> estimate ?i1 default_config = Inr r1
               \<and> breakdown_kg_per_m2_bta r0 = b0
               \<and> breakdown_kg_per_m2_bta r1
                   = dict_setitem b0 Grund (dict_get b0 Grund 0 + 48 * 0.90 * (0.5 / 0.5))"
    if off: "\<not> climate_improved_materials inp"
  proof -
    have "breakdown_kg_per_m2_bta
            (result_of (default_breakdown ?i0) (default_notes ?i0) (default_timber ?i0)) = b0"
      using off by (simp add: b0)
    moreover have "default_breakdown ?i1 = default_pre ?i1"
      using off by simp
    then have "breakdown_kg_per_m2_bta
            (result_of (default_breakdown ?i1) (default_notes ?i1) (default_timber ?i1))
          = dict_setitem b0 Grund (dict_get b0 Grund 0 + 48 * 0.90 * (0.5 / 0.5))"
      by (simp only: result_of_simps b1)
    ultimately show ?thesis
      using ok by (simp only: estimate_default floors_in_float_range_garage if_True) blast
  qed
  show ?thesis
    using pre1 res by blast
qed

text \<open>
  Scenario A, where the foundation is 318 * 0.15 without the garage and
  318 * 0.15 + 48 * 0.90 * (0.5 / 0.5) with it.
\<close>

theorem garage_adds_to_foundation_witness:
  "parking_ratio scenario_A = 0.5 \<and> atemp_to_bta scenario_A = 0.90
   \<and> \<not> climate_improved_materials scenario_A
   \<and> breakdown_pre default_config (scenario_A\<lparr>underground_garage := False\<rparr>)
       = Inr [(Stomme, 318 * 0.50), (Grund, 318 * 0.15), (Klimatskarm, 318 * 0.25),
              (Innervaggar, 318 * 0.10)]
   \<and> breakdown_pre default_config (scenario_A\<lparr>underground_garage := True\<rparr>)
       = Inr [(Stomme, 318 * 0.50), (Grund, 318 * 0.15 + 48 * 0.90 * (0.5 / 0.5)),
              (Klimatskarm, 318 * 0.25), (Innervaggar, 318 * 0.10)]
   \<and> category_value (estimate (scenario_A\<lparr>underground_garage := True\<rparr>) default_config) Grund
       = Some (318 * 0.15 + 48 * 0.90 * (0.5 / 0.5))"
proof -
  let ?i0 = "scenario_A\<lparr>underground_garage := False\<rparr>"
  let ?i1 = "scenario_A\<lparr>underground_garage := True\<rparr>"
  let ?b0 = "[(Stomme, 318 * 0.50), (Grund, 318 * 0.15), (Klimatskarm, 318 * 0.25),
              (Innervaggar, 318 * 0.10 :: real)]"
  have p: "parking_ratio scenario_A = 0.5" and a: "atemp_to_bta scenario_A = 0.90"
    and c: "\<not> climate_improved_materials scenario_A"
    by (simp_all add: scenario_A_def)
  have ok: "floors_in_float_range ?i0"
    by (rule small_floors_in_range) (simp add: scenario_A_def)
  have pre0: "breakdown_pre default_config ?i0 = Inr ?b0"
    using ok by (simp add: breakdown_pre_default closed_form_defs scenario_A_def)
  note inst = garage_adds_to_foundation [OF p a pre0]
  have pre1: "breakdown_pre default_config ?i1
       = Inr [(Stomme, 318 * 0.50), (Grund, 318 * 0.15 + 48 * 0.90 * (0.5 / 0.5)),
              (Klimatskarm, 318 * 0.25), (Innervaggar, 318 * 0.10)]"
    using inst by simp
  from inst c obtain r1 where r1: "estimate ?i1 default_config = Inr r1"
    and b1: "breakdown_kg_per_m2_bta r1
               = dict_setitem ?b0 Grund (dict_get ?b0 Grund 0 + 48 * 0.90 * (0.5 / 0.5))"
    by blast
  have g1: "category_value (estimate ?i1 default_config) Grund
       = Some (318 * 0.15 + 48 * 0.90 * (0.5 / 0.5))"
    unfolding r1 category_value_def using b1 by simp
  show ?thesis
    using p a c pre0 pre1 g1 by blast
qed

text \<open>
  Scenario A with the climate-improved flag set in both runs: the foundation category
  of the result is 598/15 (about 39.87) without the garage and 3693772/48495 (about
  76.17) with it, a difference of about 36.30, because step 6 reduces the foundation
  after the add-on.
\<close>

theorem garage_with_improvement_counterexample:
  "category_value
     (estimate (scenario_A\<lparr>climate_improved_materials := True, underground_garage := True\<rparr>)
        default_config) Grund = Some (3693772 / 48495)
   \<and> category_value
       (estimate (scenario_A\<lparr>climate_improved_materials := True, underground_garage := False\<rparr>)
          default_config) Grund = Some (598 / 15)
   \<and> parking_ratio scenario_A = 0.5 \<and> atemp_to_bta scenario_A = 0.90
   \<and> (3693772 / 48495 :: real) \<noteq> 598 / 15 + 43.2"
proof -
  let ?i1 = "scenario_A\<lparr>climate_improved_materials := True, underground_garage := True\<rparr>"
  let ?i0 = "scenario_A\<lparr>climate_improved_materials := True, underground_garage := False\<rparr>"
  have ok: "floors_in_float_range ?i1" "floors_in_float_range ?i0"
    by (rule small_floors_in_range, simp add: scenario_A_def)+
  have 1: "category_value (estimate ?i1 default_config) Grund = Some (3693772 / 48495)"
    using ok(1)
    by (simp add: category_value_def estimate_default closed_form_defs scenario_A_def Let_def)
  have 0: "category_value (estimate ?i0 default_config) Grund = Some (598 / 15)"
    using ok(2)
    by (simp add: category_value_def estimate_default closed_form_defs scenario_A_def Let_def)
  show ?thesis
    using 0 1 by (simp add: scenario_A_def)
qed

section \<open>Timber against concrete, extended scope\<close>



lemma factor_values_system [simp]:
  "height_factor_value (inp\<lparr>structural_system := s\<rparr>) = height_factor_value inp"
  "lowrise_factor_value (inp\<lparr>structural_system := s\<rparr>) = lowrise_factor_value inp"
  by (simp_all add: height_factor_value_def lowrise_factor_value_def split: option.splits)

lemma pre_Klimatskarm_system [simp]:
  "pre_Klimatskarm (inp\<lparr>structural_system := s\<rparr>) = pre_Klimatskarm inp"
  by (simp add: pre_Klimatskarm_def)



lemma floors_in_float_range_system [simp]:
  "floors_in_float_range (inp\<lparr>structural_system := s\<rparr>) = floors_in_float_range inp"
  by (simp add: floors_in_float_range_def)










end
